theory Spec2Isabelle
  imports Main
begin

section \<open>Contracts (contracts.ts)\<close>

text \<open>
  The interfaces of the contract file become records, its string-literal unions
  datatypes. A JavaScript string is a \<^typ>\<open>string\<close>, one character for each
  code unit; its \<open>length\<close>, \<open>substring(0, n)\<close> and concatenation are
  \<^const>\<open>length\<close>, \<^const>\<open>take\<close> and \<open>@\<close>. The characters of the model are the
  code units up to U+00FF. Every field of an interface is present, as its type
  requires: \<open>null\<close> and \<open>undefined\<close> are not values of the model. The
  field \<open>locale\<close> of a content variant is written \<open>locale_of\<close>, the field
  \<open>projectId\<close> of the generation output \<open>output_projectId\<close>.
\<close>

type_synonym Locale = string

datatype DataResidency = EU | US | GLOBAL

record GeoCompliance =
  requiresGDPR :: bool
  cookieConsentActive :: bool
  dataResidency :: DataResidency

record Assets =
  logoUrl :: string
  keywordsCsvUrl :: string

record BriefInput =
  campaignId :: string
  brandName :: string
  coreMessage :: string
  targetLocales :: "Locale list"
  assets :: Assets

datatype Status = VALIDATED | FAILED

record ValidatedProject =
  projectId :: string
  timestamp :: string
  status :: Status
  payload :: BriefInput
  compliance :: GeoCompliance

record UIContentVariant =
  locale_of :: Locale
  heroTitle :: string
  bodyCopy :: string
  ctaText :: string
  layoutId :: string

text \<open>\<open>errors?: string[]\<close> is an optional field: \<open>None\<close> is \<open>undefined\<close>.\<close>

record CreativeEngineOutput =
  output_projectId :: string
  variants :: "UIContentVariant list"
  generationModel :: string
  errors :: "string list option"

text \<open>
  \<open>Record<K, string>\<close> objects are keyed tables: the hreflang table is a map, the
  open-graph tags and the JSON-LD object are kept as key/value lists in the order
  the object literal writes them.
\<close>

record SEOMetadata =
  title :: string
  description :: string
  ogTags :: "(string \<times> string) list"
  canonicalUrl :: string
  hreflang :: "Locale \<rightharpoonup> string"
  structuredData :: "(string \<times> string) list"

text \<open>
  The keyword lookup reads a plain object by a locale, so besides a keyword array
  it can return a member inherited from \<open>Object.prototype\<close>; \<open>keywordsApplied\<close>
  carries whichever it was.
\<close>

datatype keywordList = Keywords "string list" | InheritedMember string

record SEOOptimizedVariant = UIContentVariant +
  seo :: SEOMetadata
  keywordsApplied :: keywordList

record MiddlewareRules =
  geoBlocking :: bool
  consentRequired :: bool

record DeploymentConfig =
  deploymentId :: string
  edgeRegion :: string
  isLive :: bool
  telemetryEndpoint :: string
  middlewareRules :: MiddlewareRules

section \<open>Promises, errors and the environment\<close>

text \<open>
  Every method of the pipeline is \<open>async\<close>: its result is the final state of the
  promise it returns. \<open>Rejected\<close> carries the \<open>Error\<close> that was thrown,
  \<open>Pending\<close> is a promise that never settles. \<open>await\<close> continues with the value
  of a fulfilled promise and passes the other two states on.
\<close>

datatype error = Error string

datatype 'a promise = Pending | Fulfilled 'a | Rejected error

fun await :: "'a promise \<Rightarrow> ('a \<Rightarrow> 'b promise) \<Rightarrow> 'b promise" where
  "await Pending k = Pending"
| "await (Fulfilled x) k = k x"
| "await (Rejected e) k = Rejected e"

text \<open>
  What the code reads from outside itself is a field of the environment:
  \<^item> \<open>urlParses u\<close>: the constructor \<open>new URL(u)\<close> returns (does not throw);
  \<^item> \<open>isoNow\<close>: \<open>new Date().toISOString()\<close> at validation;
  \<^item> \<open>nowBase36\<close>: \<open>Date.now().toString(36)\<close> at deployment;
  \<^item> \<open>aiGeneration\<close>: the generation provider behind \<open>this.stubAIGeneration\<close>
    (the scenario tests replace it on the prototype), with the settled state of its
    promise: \<open>Inl\<close> a rejection and its reason, \<open>Inr\<close> the variant;
  \<^item> \<open>completion\<close>: the order in which the generation tasks settle, as indices into
    the list of target locales (the stub draws a random latency for each). A task
    whose index is missing never settles.
\<close>

record Env =
  urlParses :: "string \<Rightarrow> bool"
  isoNow :: string
  nowBase36 :: string
  aiGeneration :: "string \<Rightarrow> Locale \<Rightarrow> error + UIContentVariant"
  completion :: "nat list"

section \<open>String primitives of the host language\<close>

text \<open>
  \<open>toLowerCase\<close> and \<open>toUpperCase\<close> on the characters of the model: the letters
  \<open>A\<close> to \<open>Z\<close> (65 to 90) and U+00C0 to U+00DE (192 to 222, without the
  multiplication sign 215) are the capitals of the letters 32 code units above
  them. The capital of U+00DF (223) is \<open>SS\<close>. The capitals of U+00B5 and U+00FF
  lie beyond U+00FF, outside the characters of the model; \<open>toUpperCase\<close> leaves
  these two as they are.
  \<open>split sep s\<close> is \<open>s.split(sep)\<close> for a one-character separator: it never
  returns the empty array, so its element 0 always exists.
\<close>

definition toLowerCaseChar :: "char \<Rightarrow> char" where
  "toLowerCaseChar c =
     (let n = (of_char c :: nat)
      in if (65 \<le> n \<and> n \<le> 90) \<or> (192 \<le> n \<and> n \<le> 222 \<and> n \<noteq> 215)
         then char_of (n + 32) else c)"

definition toLowerCase :: "string \<Rightarrow> string" where
  "toLowerCase s = map toLowerCaseChar s"

definition toUpperCaseChar :: "char \<Rightarrow> string" where
  "toUpperCaseChar c =
     (let n = (of_char c :: nat)
      in if n = 223 then ''SS''
         else if (97 \<le> n \<and> n \<le> 122) \<or> (224 \<le> n \<and> n \<le> 254 \<and> n \<noteq> 247)
         then [char_of (n - 32)] else [c])"

definition toUpperCase :: "string \<Rightarrow> string" where
  "toUpperCase s = concat (map toUpperCaseChar s)"

fun split :: "char \<Rightarrow> string \<Rightarrow> string list" where
  "split sep [] = [[]]"
| "split sep (c # cs) =
     (if c = sep then [] # split sep cs
      else (case split sep cs of
              [] \<Rightarrow> [[c]]
            | p # ps \<Rightarrow> (c # p) # ps))"

text \<open>
  \<open>trim\<close> strips white space and line terminators at both ends; of the
  characters of the model these are tab, line feed, vertical tab, form feed,
  carriage return, space and the no-break space U+00A0.
\<close>

definition isWhiteSpace :: "char \<Rightarrow> bool" where
  "isWhiteSpace c =
     (c \<in> set [CHR 0x09, CHR 0x0A, CHR 0x0B, CHR 0x0C, CHR 0x0D, CHR 0x20, CHR 0xA0])"

definition trim :: "string \<Rightarrow> string" where
  "trim s = rev (dropWhile isWhiteSpace (rev (dropWhile isWhiteSpace s)))"

section \<open>Inbound orchestrator: compliance derivation\<close>

definition euLocales :: "string list" where
  "euLocales = [''it'', ''fr'', ''de'', ''es'', ''pt'', ''nl'', ''be'', ''at'', ''ie'',
                ''pl'', ''se'', ''fi'', ''dk'']"

text \<open>The \<open>for ... of\<close> loop of \<open>computeGeoCompliance\<close>, with its \<open>break\<close>.\<close>

fun isEuTargeted_loop :: "Locale list \<Rightarrow> bool" where
  "isEuTargeted_loop [] = False"
| "isEuTargeted_loop (locale # rest) =
     (let langPart = toLowerCase (hd (split CHR ''-'' locale))
      in if langPart \<in> set euLocales then True else isEuTargeted_loop rest)"

definition computeGeoCompliance :: "Locale list \<Rightarrow> GeoCompliance" where
  "computeGeoCompliance locales =
     (let isEuTargeted = isEuTargeted_loop locales
      in \<lparr> requiresGDPR = isEuTargeted,
           cookieConsentActive = isEuTargeted,
           dataResidency = (if isEuTargeted then EU else GLOBAL) \<rparr>)"

section \<open>Inbound orchestrator: validation\<close>

text \<open>
  \<open>isValidUrl\<close> catches what the URL constructor throws, so it always returns.
\<close>

definition isValidUrl :: "Env \<Rightarrow> string \<Rightarrow> bool" where
  "isValidUrl env url = (if url = [] then False else urlParses env url)"

text \<open>
  Steps 1 and 2 of \<open>validateInput\<close>: the six checks, each pushing its message.
  \<open>!s\<close> on a string is \<open>s = []\<close>; the contract types exclude \<open>null\<close> and
  \<open>undefined\<close>.
\<close>

definition validationErrors :: "Env \<Rightarrow> BriefInput \<Rightarrow> string list" where
  "validationErrors env input =
     (let errors0 = [];
          errors1 = (if campaignId input = [] \<or> length (trim (campaignId input)) < 3
                     then errors0 @ [''Invariant Violation: campaignId must be at least 3 characters.'']
                     else errors0);
          errors2 = (if brandName input = [] \<or> length (trim (brandName input)) = 0
                     then errors1 @ [''Invariant Violation: brandName is required.'']
                     else errors1);
          errors3 = (if coreMessage input = [] \<or> length (trim (coreMessage input)) < 10
                     then errors2 @ [''Quality Gate: coreMessage too short for AI generation (<10 chars).'']
                     else errors2);
          errors4 = (if length (targetLocales input) = 0
                     then errors3 @ [''Invariant Violation: At least one targetLocale is required.'']
                     else errors3);
          errors5 = (if \<not> isValidUrl env (logoUrl (assets input))
                     then errors4 @ [''Asset Error: Invalid logoUrl format: '' @ logoUrl (assets input)]
                     else errors4);
          errors6 = (if \<not> isValidUrl env (keywordsCsvUrl (assets input))
                     then errors5 @ [''Asset Error: Invalid keywordsCsvUrl format: ''
                                      @ keywordsCsvUrl (assets input)]
                     else errors5)
      in errors6)"

text \<open>The conditions of the six \<open>if\<close>s, negated: no check pushes a message.\<close>

definition passesChecks :: "Env \<Rightarrow> BriefInput \<Rightarrow> bool" where
  "passesChecks env input =
     (\<not> (campaignId input = [] \<or> length (trim (campaignId input)) < 3)
      \<and> \<not> (brandName input = [] \<or> length (trim (brandName input)) = 0)
      \<and> \<not> (coreMessage input = [] \<or> length (trim (coreMessage input)) < 10)
      \<and> \<not> (length (targetLocales input) = 0)
      \<and> isValidUrl env (logoUrl (assets input))
      \<and> isValidUrl env (keywordsCsvUrl (assets input)))"

definition validateInput :: "Env \<Rightarrow> BriefInput \<Rightarrow> ValidatedProject promise" where
  "validateInput env input =
     (let errs = validationErrors env input;
          status = (if length errs > 0 then FAILED else VALIDATED);
          compliance = computeGeoCompliance (targetLocales input)
      in Fulfilled \<lparr> projectId = campaignId input,
                     timestamp = isoNow env,
                     status = status,
                     payload = input,
                     compliance = compliance \<rparr>)"

section \<open>Creative AI engine\<close>

definition determineLayout :: "Locale \<Rightarrow> string" where
  "determineLayout locale =
     (if locale \<in> set [''de-DE'', ''ru-RU'', ''fi-FI''] then ''layout-wide-v2''
      else ''layout-minimal-v1'')"

text \<open>The generation stub of the repository: it never rejects.\<close>

definition stubAIGeneration :: "string \<Rightarrow> Locale \<Rightarrow> error + UIContentVariant" where
  "stubAIGeneration message locale =
     (let localizedPrefix = ''['' @ toUpperCase locale @ '']''
      in Inr \<lparr> locale_of = locale,
               heroTitle = localizedPrefix @ '' Future of Living: '' @ take 20 message @ ''...'',
               bodyCopy = localizedPrefix @ '' Experience the '' @ message
                  @ '' in a way that respects your local culture. This is a generated description ensuring semantic consistency.'',
               ctaText = localizedPrefix @ '' Discover More'',
               layoutId = determineLayout locale \<rparr>)"

text \<open>
  The generation provider that scenario 1 of the test harness puts in its place:
  it rejects for \<open>de-DE\<close> and \<open>ja-JP\<close>.
\<close>

definition scenario1AIGeneration :: "string \<Rightarrow> Locale \<Rightarrow> error + UIContentVariant" where
  "scenario1AIGeneration message locale =
     (if locale = ''de-DE'' \<or> locale = ''ja-JP''
      then Inl (Error (''Simulated API Timeout for '' @ locale))
      else Inr \<lparr> locale_of = locale,
                 heroTitle = ''['' @ locale @ ''] Valid'',
                 bodyCopy = ''Valid content for '' @ locale,
                 ctaText = ''Click'',
                 layoutId = ''layout-standard'' \<rparr>)"

text \<open>
  \<open>Promise.allSettled\<close> keeps one slot per task and writes each result into the
  slot of its task when the task settles; it fulfils once every slot is written.
\<close>

definition settle :: "nat list \<Rightarrow> 'a list \<Rightarrow> 'a option list" where
  "settle order tasks =
     fold (\<lambda>i slots. if i < length tasks then slots[i := Some (tasks ! i)] else slots)
          order (replicate (length tasks) None)"

definition allSettled :: "nat list \<Rightarrow> 'a list \<Rightarrow> 'a list promise" where
  "allSettled order tasks =
     (let slots = settle order tasks
      in if None \<in> set slots then Pending else Fulfilled (map the slots))"

text \<open>
  \<open>String(reason)\<close> of a thrown \<open>Error\<close>: its name alone when the message is
  empty.
\<close>

fun String_of :: "error \<Rightarrow> string" where
  "String_of (Error message) = (if message = [] then ''Error'' else ''Error: '' @ message)"

text \<open>The \<open>results.forEach\<close> of \<open>generateCreatives\<close>, pushing onto its two arrays.\<close>

fun collectResults ::
  "(error + UIContentVariant) list \<Rightarrow> UIContentVariant list \<Rightarrow> string list
     \<Rightarrow> UIContentVariant list \<times> string list" where
  "collectResults [] vs es = (vs, es)"
| "collectResults (Inr v # results) vs es = collectResults results (vs @ [v]) es"
| "collectResults (Inl reason # results) vs es = collectResults results vs (es @ [String_of reason])"

definition stubPersistenceLayer :: "CreativeEngineOutput \<Rightarrow> unit promise" where
  "stubPersistenceLayer output = Fulfilled ()"

fun statusText :: "Status \<Rightarrow> string" where
  "statusText VALIDATED = ''VALIDATED''"
| "statusText FAILED = ''FAILED''"

definition generateCreatives :: "Env \<Rightarrow> ValidatedProject \<Rightarrow> CreativeEngineOutput promise" where
  "generateCreatives env project =
     (if status project \<noteq> VALIDATED
      then Rejected (Error (''[CreativeAIEngine] Invariant Violation: Cannot process project with status ''
                            @ statusText (status project)))
      else
        let variantPromises =
              map (\<lambda>locale. aiGeneration env (coreMessage (payload project)) locale)
                  (targetLocales (payload project))
        in await (allSettled (completion env) variantPromises) (\<lambda>results.
             case collectResults results [] [] of
               (vs, es) \<Rightarrow>
                 let output = \<lparr> output_projectId = projectId project,
                                 variants = vs,
                                 generationModel = ''gpt-4o-stub-v1'',
                                 errors = (if length es > 0 then Some es else None) \<rparr>
                 in await (stubPersistenceLayer output) (\<lambda>_. Fulfilled output)))"

section \<open>SEO semantic agent\<close>

definition MAX_TITLE_LENGTH :: nat where
  "MAX_TITLE_LENGTH = 60"

definition MAX_DESC_LENGTH :: nat where
  "MAX_DESC_LENGTH = 160"

text \<open>
  \<open>text.substring(0, maxLength - 3)\<close> reads a negative end as 0, as the
  subtraction on \<^typ>\<open>nat\<close> does.
\<close>

definition truncate :: "string \<Rightarrow> nat \<Rightarrow> string" where
  "truncate text_in maxLength =
     (if length text_in \<le> maxLength then text_in
      else take (maxLength - 3) text_in @ ''...'')"

definition stubUrlBuilder :: "Locale \<Rightarrow> string" where
  "stubUrlBuilder locale = ''https://microsite-factory.com/'' @ locale @ ''/campaign-mvc''"

definition supportedLocales :: "Locale list" where
  "supportedLocales = [''en-US'', ''it-IT'', ''fr-FR'', ''es-ES'', ''de-DE'']"

text \<open>The \<open>for ... of\<close> loop of \<open>generateHreflangMap\<close>, assigning \<open>map[loc]\<close>.\<close>

fun hreflang_loop :: "Locale list \<Rightarrow> (Locale \<rightharpoonup> string) \<Rightarrow> (Locale \<rightharpoonup> string)" where
  "hreflang_loop [] m = m"
| "hreflang_loop (loc # locs) m = hreflang_loop locs (m(loc \<mapsto> stubUrlBuilder loc))"

definition generateHreflangMap :: "Locale \<rightharpoonup> string" where
  "generateHreflangMap = hreflang_loop supportedLocales Map.empty"

text \<open>
  The keyword table is an object literal: \<open>keywordMap[locale]\<close> finds its five
  own keys and, for a locale that names one, the members of \<open>Object.prototype\<close>.
  An inherited member is truthy, so the default keyword list is not used for it,
  and it has no element 0.
\<close>

definition objectPrototypeKeys :: "string list" where
  "objectPrototypeKeys =
     [''constructor'', ''__defineGetter__'', ''__defineSetter__'', ''hasOwnProperty'',
      ''__lookupGetter__'', ''__lookupSetter__'', ''isPrototypeOf'',
      ''propertyIsEnumerable'', ''toString'', ''valueOf'', ''__proto__'',
      ''toLocaleString'']"

definition keywordMap :: "(string \<times> string list) list" where
  "keywordMap =
     [(''en-US'', [''Best Villas'', ''Luxury Living'', ''Investment'']),
      (''it-IT'', [''Migliori Ville'', ''Vita di Lusso'', ''Investimenti'']),
      (''fr-FR'', [''Meilleures Villas'', ''Vie de Luxe'', ''Investissement'']),
      (''es-ES'', [''Mejores Villas'', ''Vida de Lujo'', ''Inversi'' @ [CHR 0xF3] @ ''n'']),
      (''de-DE'', [''Besten Villen'', ''Luxusleben'', ''Investition''])]"

definition stubKeywordDatabase :: "Locale \<Rightarrow> keywordList promise" where
  "stubKeywordDatabase locale =
     Fulfilled (case map_of keywordMap locale of
                  Some ks \<Rightarrow> Keywords ks
                | None \<Rightarrow>
                    if locale \<in> set objectPrototypeKeys then InheritedMember locale
                    else Keywords [''Luxury Real Estate''])"

definition generateMetadata :: "UIContentVariant \<Rightarrow> string \<Rightarrow> SEOMetadata" where
  "generateMetadata variant keyword =
     (let rawTitle = heroTitle variant @ '' | '' @ keyword;
          title = truncate rawTitle MAX_TITLE_LENGTH;
          rawDesc = take 100 (bodyCopy variant) @ ''... '' @ ctaText variant;
          description = truncate rawDesc MAX_DESC_LENGTH;
          canonicalUrl = stubUrlBuilder (locale_of variant);
          hreflangMap = generateHreflangMap;
          structuredData = [(''@context'', ''https://schema.org''),
                            (''@type'', ''WebPage''),
                            (''name'', title),
                            (''description'', description),
                            (''inLanguage'', locale_of variant)]
      in \<lparr> title = title,
           description = description,
           ogTags = [(''og:title'', title),
                     (''og:description'', description),
                     (''og:locale'', locale_of variant),
                     (''og:url'', canonicalUrl)],
           canonicalUrl = canonicalUrl,
           hreflang = hreflangMap,
           structuredData = structuredData \<rparr>)"

text \<open>
  \<open>keywords[0] || 'Brand'\<close>: a missing or empty first keyword gives the default.
  The parameter \<open>compliance\<close> of \<open>executeGeoDeploy\<close> below is written
  \<open>policy\<close>.
\<close>

definition optimizeSEO :: "UIContentVariant \<Rightarrow> SEOOptimizedVariant promise" where
  "optimizeSEO variant =
     (if locale_of variant = [] \<or> heroTitle variant = []
      then Rejected (Error (''[SeoSemanticAgent] Invariant Violation: Invalid input variant for locale ''
                            @ locale_of variant))
      else
        await (stubKeywordDatabase (locale_of variant)) (\<lambda>keywords.
          let primaryKeyword = (case keywords of
                                  Keywords [] \<Rightarrow> ''Brand''
                                | Keywords (k # _) \<Rightarrow> if k = [] then ''Brand'' else k
                                | InheritedMember _ \<Rightarrow> ''Brand'');
              seoMetadata = generateMetadata variant primaryKeyword
          in Fulfilled \<lparr> locale_of = locale_of variant,
                         heroTitle = heroTitle variant,
                         bodyCopy = bodyCopy variant,
                         ctaText = ctaText variant,
                         layoutId = layoutId variant,
                         seo = seoMetadata,
                         keywordsApplied = keywords \<rparr>))"

section \<open>GEO deployment hub: region selection\<close>

definition euPrefixes :: "string list" where
  "euPrefixes = [''it'', ''fr'', ''de'', ''es'', ''pt'', ''nl'', ''be'', ''at'', ''ie'']"

definition isEuLocale :: "Locale \<Rightarrow> bool" where
  "isEuLocale locale =
     (let prefix = toLowerCase (hd (split CHR ''-'' locale))
      in prefix \<in> set euPrefixes)"

text \<open>The \<open>forEach\<close> of \<open>determineEdgeRegion\<close>, threading its two counters.\<close>

fun countLocales :: "Locale list \<Rightarrow> nat \<Rightarrow> nat \<Rightarrow> nat \<times> nat" where
  "countLocales [] euCount usCount = (euCount, usCount)"
| "countLocales (loc # locs) euCount usCount =
     (if isEuLocale loc then countLocales locs (euCount + 1) usCount
      else countLocales locs euCount (usCount + 1))"

definition determineEdgeRegion :: "Locale list \<Rightarrow> string" where
  "determineEdgeRegion locales =
     (case countLocales locales 0 0 of
        (euCount, usCount) \<Rightarrow>
          if euCount > usCount then ''fra1''
          else if usCount > 0 then ''iad1''
          else ''global'')"

section \<open>GEO deployment hub: deployment\<close>

definition stubVercelDeploy :: "Env \<Rightarrow> MiddlewareRules \<Rightarrow> string \<Rightarrow> string promise" where
  "stubVercelDeploy env rules region = Fulfilled (''dpl_'' @ region @ ''_'' @ nowBase36 env)"

definition stubTelemetryProvisioning :: "string \<Rightarrow> string promise" where
  "stubTelemetryProvisioning dplId =
     Fulfilled (''https://analytics.microsite-factory.com/v1/events/'' @ dplId)"

definition executeGeoDeploy ::
  "Env \<Rightarrow> SEOOptimizedVariant list \<Rightarrow> GeoCompliance \<Rightarrow> DeploymentConfig promise" where
  "executeGeoDeploy env seoVariants policy =
     (if length seoVariants = 0
      then Rejected (Error ''[GeoDeploymentHub] Invariant Violation: No variants provided for deployment.'')
      else
        let rules = \<lparr> geoBlocking = False, consentRequired = requiresGDPR policy \<rparr>;
            targetRegion = determineEdgeRegion (map locale_of seoVariants)
        in await (stubVercelDeploy env rules targetRegion) (\<lambda>deploymentId.
           await (stubTelemetryProvisioning deploymentId) (\<lambda>telemetryEndpoint.
             Fulfilled \<lparr> deploymentId = deploymentId,
                         edgeRegion = targetRegion,
                         isLive = True,
                         telemetryEndpoint = telemetryEndpoint,
                         middlewareRules = rules \<rparr>)))"

section \<open>Main orchestrator\<close>

text \<open>
  The orchestrator reaches the four modules only through its own four interface
  methods. A run is modelled with the list of those calls, in the order they are
  made, beside the final state of the promise. \<open>Promise.all\<close> over the SEO
  promises rejects with the first rejection; \<open>optimizeSEO\<close> throws before its
  first \<open>await\<close>, so that is the first rejected variant in list order.
\<close>

datatype call =
    CallValidateInput
  | CallGenerateCreatives
  | CallOptimizeSEO Locale
  | CallExecuteGeoDeploy

type_synonym 'a run = "call list \<times> 'a promise"

fun andThen :: "'a run \<Rightarrow> ('a \<Rightarrow> 'b run) \<Rightarrow> 'b run" where
  "andThen (log, Fulfilled x) k = (case k x of (log', r) \<Rightarrow> (log @ log', r))"
| "andThen (log, Rejected e) k = (log, Rejected e)"
| "andThen (log, Pending) k = (log, Pending)"

fun promiseAll :: "'a promise list \<Rightarrow> 'a list promise" where
  "promiseAll [] = Fulfilled []"
| "promiseAll (Rejected e # ps) = Rejected e"
| "promiseAll (Fulfilled x # ps) =
     (case promiseAll ps of
        Fulfilled xs \<Rightarrow> Fulfilled (x # xs)
      | Rejected e \<Rightarrow> Rejected e
      | Pending \<Rightarrow> Pending)"
| "promiseAll (Pending # ps) =
     (case promiseAll ps of
        Rejected e \<Rightarrow> Rejected e
      | _ \<Rightarrow> Pending)"

definition orchestrator_validateInput :: "Env \<Rightarrow> BriefInput \<Rightarrow> ValidatedProject run" where
  "orchestrator_validateInput env input = ([CallValidateInput], validateInput env input)"

definition orchestrator_generateCreatives ::
  "Env \<Rightarrow> ValidatedProject \<Rightarrow> CreativeEngineOutput run" where
  "orchestrator_generateCreatives env project = ([CallGenerateCreatives], generateCreatives env project)"

definition orchestrator_optimizeSEO :: "UIContentVariant list \<Rightarrow> SEOOptimizedVariant list run" where
  "orchestrator_optimizeSEO vs =
     (map (\<lambda>variant. CallOptimizeSEO (locale_of variant)) vs,
      promiseAll (map optimizeSEO vs))"

definition orchestrator_executeGeoDeploy ::
  "Env \<Rightarrow> SEOOptimizedVariant list \<Rightarrow> GeoCompliance \<Rightarrow> DeploymentConfig run" where
  "orchestrator_executeGeoDeploy env seoVariants policy =
     ([CallExecuteGeoDeploy], executeGeoDeploy env seoVariants policy)"

definition runPipeline :: "Env \<Rightarrow> BriefInput \<Rightarrow> DeploymentConfig run" where
  "runPipeline env brief =
     andThen (orchestrator_validateInput env brief) (\<lambda>validatedProjet.
       if status validatedProjet = FAILED
       then ([], Rejected (Error ''Pipeline Halted: Input validation failed.''))
       else
         andThen (orchestrator_generateCreatives env validatedProjet) (\<lambda>creativeOutput.
         andThen (orchestrator_optimizeSEO (variants creativeOutput)) (\<lambda>seoVariants.
           orchestrator_executeGeoDeploy env seoVariants (compliance validatedProjet))))"

section \<open>Test fixtures and the notions the properties are stated with\<close>

text \<open>
  The briefs of the integration test and of scenario 1 of the test harness. The
  fixture environment accepts a URL when it starts with \<open>https://\<close> and goes on,
  which the URL constructor does for the URLs of the tests.
\<close>

definition fixtureEnv :: Env where
  "fixtureEnv =
     \<lparr> urlParses = (\<lambda>u. take 8 u = ''https://'' \<and> 8 < length u),
       isoNow = ''2026-01-15T09:30:00.000Z'',
       nowBase36 = ''mkf3x2a1'',
       aiGeneration = stubAIGeneration,
       completion = [2, 0, 1] \<rparr>"

definition integrationBrief :: BriefInput where
  "integrationBrief =
     \<lparr> campaignId = ''integration-test-2026'',
       brandName = ''Lusitano Luxury'',
       coreMessage = ''Exclusive villas in Comporta with sustainable design.'',
       targetLocales = [''en-US'', ''it-IT'', ''de-DE''],
       assets = \<lparr> logoUrl = ''https://via.placeholder.com/150'',
                  keywordsCsvUrl = ''https://example.com/keywords.csv'' \<rparr> \<rparr>"

definition scenario1Env :: Env where
  "scenario1Env =
     \<lparr> urlParses = (\<lambda>u. take 8 u = ''https://'' \<and> 8 < length u),
       isoNow = ''2026-01-15T09:30:00.000Z'',
       nowBase36 = ''mkf3x2a1'',
       aiGeneration = scenario1AIGeneration,
       completion = [9, 8, 3, 0, 1, 2, 7, 6, 5, 4] \<rparr>"

definition scenario1Brief :: BriefInput where
  "scenario1Brief =
     \<lparr> campaignId = ''sc1-partial-failure'',
       brandName = ''TestBrand'',
       coreMessage = ''Resilience is key to distributed systems.'',
       targetLocales = [''en-US'', ''it-IT'', ''fr-FR'', ''es-ES'', ''pt-PT'', ''nl-NL'',
                        ''pl-PL'', ''se-SE'', ''de-DE'', ''ja-JP''],
       assets = \<lparr> logoUrl = ''https://ok.com/logo.png'',
                  keywordsCsvUrl = ''https://ok.com/kw.csv'' \<rparr> \<rparr>"

definition scenario3Brief :: BriefInput where
  "scenario3Brief =
     \<lparr> campaignId = ''sc3-seo'',
       brandName = ''SEOBot'',
       coreMessage = ''Semantic SEO 2026 Test'',
       targetLocales = [''en-US''],
       assets = \<lparr> logoUrl = ''https://s.com/l.png'',
                  keywordsCsvUrl = ''https://s.com/k.csv'' \<rparr> \<rparr>"

text \<open>
  The variant list of scenario 2; its forged \<open>seo: {}\<close> is the metadata with
  every field empty.
\<close>

definition seoVariantsFr :: "SEOOptimizedVariant list" where
  "seoVariantsFr =
     [\<lparr> locale_of = ''fr-FR'', heroTitle = ''Bonjeur'', bodyCopy = ''Oui'', ctaText = ''Allez'',
        layoutId = ''std'',
        seo = \<lparr> title = [], description = [], ogTags = [], canonicalUrl = [],
                hreflang = Map.empty, structuredData = [] \<rparr>,
        keywordsApplied = Keywords [] \<rparr>]"

text \<open>Two optimized variants, one of an EU-classified locale and one not.\<close>

definition tieVariants :: "SEOOptimizedVariant list" where
  "tieVariants =
     [\<lparr> locale_of = ''it-IT'', heroTitle = ''Ciao'', bodyCopy = ''Si'', ctaText = ''Vai'',
        layoutId = ''std'',
        seo = \<lparr> title = [], description = [], ogTags = [], canonicalUrl = [],
                hreflang = Map.empty, structuredData = [] \<rparr>,
        keywordsApplied = Keywords [] \<rparr>,
      \<lparr> locale_of = ''en-US'', heroTitle = ''Hello'', bodyCopy = ''Yes'', ctaText = ''Go'',
        layoutId = ''std'',
        seo = \<lparr> title = [], description = [], ogTags = [], canonicalUrl = [],
                hreflang = Map.empty, structuredData = [] \<rparr>,
        keywordsApplied = Keywords [] \<rparr>]"

text \<open>Region selection: the two classes of locales whose sizes are compared.\<close>

definition euClassified :: "Locale list \<Rightarrow> Locale list" where
  "euClassified locales = filter isEuLocale locales"

definition nonEuClassified :: "Locale list \<Rightarrow> Locale list" where
  "nonEuClassified locales = filter (\<lambda>l. \<not> isEuLocale l) locales"

text \<open>
  Compliance: the language prefix of a locale is what stands before its first
  \<open>-\<close>; a locale list targets the EU when one of its prefixes is, letter case
  aside, a member of the validator's language set.
\<close>

definition languagePrefix :: "Locale \<Rightarrow> string" where
  "languagePrefix locale = takeWhile (\<lambda>c. c \<noteq> CHR ''-'') locale"

definition sameIgnoringCase :: "string \<Rightarrow> string \<Rightarrow> bool" where
  "sameIgnoringCase a b = (toLowerCase a = toLowerCase b)"

definition hasEuLanguage :: "Locale list \<Rightarrow> bool" where
  "hasEuLanguage locales =
     (\<exists>l \<in> set locales. \<exists>e \<in> set euLocales. sameIgnoringCase (languagePrefix l) e)"

definition euPolicy :: GeoCompliance where
  "euPolicy = \<lparr> requiresGDPR = True, cookieConsentActive = True, dataResidency = EU \<rparr>"

definition globalPolicy :: GeoCompliance where
  "globalPolicy = \<lparr> requiresGDPR = False, cookieConsentActive = False, dataResidency = GLOBAL \<rparr>"

text \<open>
  Validation. A text without its surrounding white space: what is left when the
  white space at its end and then the white space at its start are removed. The
  five checks are read twice: with the lengths of the fields as they were
  submitted, and with the lengths of the fields without their surrounding white
  space. A syntactically valid absolute URL is a string the URL constructor
  accepts.
\<close>

definition withoutSurroundingWhiteSpace :: "string \<Rightarrow> string" where
  "withoutSurroundingWhiteSpace s =
     dropWhile isWhiteSpace (rev (dropWhile isWhiteSpace (rev s)))"

definition checksAsStated :: "Env \<Rightarrow> BriefInput \<Rightarrow> bool" where
  "checksAsStated env input =
     (campaignId input \<noteq> [] \<and> 3 \<le> length (campaignId input)
      \<and> brandName input \<noteq> []
      \<and> 10 \<le> length (coreMessage input)
      \<and> targetLocales input \<noteq> []
      \<and> urlParses env (logoUrl (assets input))
      \<and> urlParses env (keywordsCsvUrl (assets input)))"

definition checksOnTrimmed :: "Env \<Rightarrow> BriefInput \<Rightarrow> bool" where
  "checksOnTrimmed env input =
     (campaignId input \<noteq> []
      \<and> 3 \<le> length (withoutSurroundingWhiteSpace (campaignId input))
      \<and> withoutSurroundingWhiteSpace (brandName input) \<noteq> []
      \<and> 10 \<le> length (withoutSurroundingWhiteSpace (coreMessage input))
      \<and> targetLocales input \<noteq> []
      \<and> urlParses env (logoUrl (assets input))
      \<and> urlParses env (keywordsCsvUrl (assets input)))"

text \<open>The language prefixes of the validator's set that the hub's set lacks.\<close>

definition validatorOnlyPrefixes :: "string list" where
  "validatorOnlyPrefixes = [''pl'', ''se'', ''fi'', ''dk'']"

text \<open>
  Generation: the settled tasks in submission order, those that were rejected, the
  failure messages of an outcome (none when \<open>errors\<close> is \<open>undefined\<close>), and the
  target locales whose task was fulfilled.
\<close>

definition generationTasks :: "Env \<Rightarrow> ValidatedProject \<Rightarrow> (error + UIContentVariant) list" where
  "generationTasks env project =
     map (aiGeneration env (coreMessage (payload project))) (targetLocales (payload project))"

definition failedTasks :: "Env \<Rightarrow> ValidatedProject \<Rightarrow> (error + UIContentVariant) list" where
  "failedTasks env project = filter isl (generationTasks env project)"

definition failureMessages :: "CreativeEngineOutput \<Rightarrow> string list" where
  "failureMessages out = (case errors out of None \<Rightarrow> [] | Some es \<Rightarrow> es)"

definition succeededLocales :: "Env \<Rightarrow> ValidatedProject \<Rightarrow> Locale list" where
  "succeededLocales env project =
     filter (\<lambda>l. \<not> isl (aiGeneration env (coreMessage (payload project)) l))
            (targetLocales (payload project))"

text \<open>Every generation task settles: each task index occurs in the completion order.\<close>

definition everyTaskSettles :: "nat list \<Rightarrow> ValidatedProject \<Rightarrow> bool" where
  "everyTaskSettles order project =
     (set [0..<length (targetLocales (payload project))] \<subseteq> set order)"

text \<open>The provider answers a request for a locale with a variant of that locale.\<close>

definition providerKeepsLocale :: "Env \<Rightarrow> ValidatedProject \<Rightarrow> bool" where
  "providerKeepsLocale env project =
     (\<forall>l \<in> set (targetLocales (payload project)).
        case aiGeneration env (coreMessage (payload project)) l of
          Inl reason \<Rightarrow> True
        | Inr v \<Rightarrow> locale_of v = l)"

text \<open>The project that validation returns for the brief of scenario 1.\<close>

definition scenario1Project :: ValidatedProject where
  "scenario1Project =
     \<lparr> projectId = ''sc1-partial-failure'',
       timestamp = ''2026-01-15T09:30:00.000Z'',
       status = VALIDATED,
       payload = scenario1Brief,
       compliance = euPolicy \<rparr>"

section \<open>Properties\<close>

lemmas eval_strings = toLowerCase_def toLowerCaseChar_def toUpperCase_def toUpperCaseChar_def
  char_of_eq_iff trim_def isWhiteSpace_def

lemma split_not_Nil: "split sep s \<noteq> []"
  by (induction s) (auto split: list.splits)

lemma hd_split: "hd (split sep s) = takeWhile (\<lambda>c. c \<noteq> sep) s"
  by (induction s) (auto split: list.splits simp: split_not_Nil)

subsection \<open>Region selection\<close>

lemma countLocales_filter:
  "countLocales ls e u =
     (e + length (filter isEuLocale ls), u + length (filter (\<lambda>l. \<not> isEuLocale l) ls))"
  by (induction ls arbitrary: e u) auto

lemma classes_partition:
  "length (euClassified ls) + length (nonEuClassified ls) = length ls"
  unfolding euClassified_def nonEuClassified_def
  by (rule sum_length_filter_compl)

lemma determineEdgeRegion_cases:
  "determineEdgeRegion ls =
     (if length (euClassified ls) > length (nonEuClassified ls) then ''fra1''
      else if length (nonEuClassified ls) > 0 then ''iad1''
      else ''global'')"
  by (simp add: determineEdgeRegion_def countLocales_filter euClassified_def nonEuClassified_def)

lemma determineEdgeRegion_strict_majority:
  "length (euClassified ls) > length (nonEuClassified ls) \<Longrightarrow> determineEdgeRegion ls = ''fra1''"
  "length (nonEuClassified ls) > length (euClassified ls) \<Longrightarrow> determineEdgeRegion ls = ''iad1''"
  by (auto simp: determineEdgeRegion_cases)

lemma determineEdgeRegion_nonempty_tie:
  assumes "ls \<noteq> []" and "length (euClassified ls) = length (nonEuClassified ls)"
  shows "determineEdgeRegion ls = ''iad1''"
proof -
  have "0 < length (nonEuClassified ls)"
    using assms classes_partition [of ls] by (cases "length (nonEuClassified ls)") auto
  then show ?thesis
    using assms(2) by (simp add: determineEdgeRegion_cases)
qed

lemma determineEdgeRegion_global_iff: "determineEdgeRegion ls = ''global'' \<longleftrightarrow> ls = []"
proof (cases "ls = []")
  case True
  then show ?thesis by (simp add: determineEdgeRegion_def)
next
  case False
  then have "0 < length (euClassified ls) + length (nonEuClassified ls)"
    by (simp add: classes_partition)
  with False show ?thesis
    by (auto simp: determineEdgeRegion_cases)
qed

text \<open>
  C1. Region selection is to return \<open>fra1\<close> on a strict majority of EU-classified
  locales, \<open>iad1\<close> on a strict majority of the others, and the global fallback
  on a tie. On the tie of \<open>it-IT\<close> and \<open>en-US\<close>, one locale of each class, the
  code returns \<open>iad1\<close>, from \<open>determineEdgeRegion\<close> and in the configuration that
  \<open>executeGeoDeploy\<close> returns; its second test is \<open>usCount > 0\<close>, and the
  fallback is returned for the empty list only, which \<open>executeGeoDeploy\<close> rejects.
\<close>

theorem determineEdgeRegion_tie_iad1:
  "length (euClassified [''it-IT'', ''en-US'']) = 1
   \<and> length (nonEuClassified [''it-IT'', ''en-US'']) = 1
   \<and> determineEdgeRegion [''it-IT'', ''en-US''] = ''iad1''
   \<and> map locale_of tieVariants = [''it-IT'', ''en-US'']
   \<and> executeGeoDeploy fixtureEnv tieVariants euPolicy =
       Fulfilled \<lparr> deploymentId = ''dpl_iad1_mkf3x2a1'',
                   edgeRegion = ''iad1'',
                   isLive = True,
                   telemetryEndpoint = ''https://analytics.microsite-factory.com/v1/events/dpl_iad1_mkf3x2a1'',
                   middlewareRules = \<lparr> geoBlocking = False, consentRequired = True \<rparr> \<rparr>"
proof -
  have classes: "isEuLocale ''it-IT''" "\<not> isEuLocale ''en-US''"
    by (simp_all add: isEuLocale_def euPrefixes_def eval_strings)
  have locs: "map locale_of tieVariants = [''it-IT'', ''en-US'']"
    by (simp add: tieVariants_def)
  have region: "determineEdgeRegion [''it-IT'', ''en-US''] = ''iad1''"
    using classes by (simp add: determineEdgeRegion_def)
  have deploy: "executeGeoDeploy fixtureEnv tieVariants euPolicy =
       Fulfilled \<lparr> deploymentId = ''dpl_iad1_mkf3x2a1'',
                   edgeRegion = ''iad1'',
                   isLive = True,
                   telemetryEndpoint = ''https://analytics.microsite-factory.com/v1/events/dpl_iad1_mkf3x2a1'',
                   middlewareRules = \<lparr> geoBlocking = False, consentRequired = True \<rparr> \<rparr>"
    by (simp add: executeGeoDeploy_def stubVercelDeploy_def stubTelemetryProvisioning_def
        locs region tieVariants_def [THEN arg_cong, of length] fixtureEnv_def euPolicy_def)
  show ?thesis
    using classes locs region deploy
    by (simp add: euClassified_def nonEuClassified_def)
qed

subsection \<open>Compliance derivation\<close>

lemma toLowerCase_euLocales: "e \<in> set euLocales \<Longrightarrow> toLowerCase e = e"
  by (auto simp: euLocales_def eval_strings)

lemma eu_member_ignoring_case:
  "(\<exists>e \<in> set euLocales. sameIgnoringCase p e) \<longleftrightarrow> toLowerCase p \<in> set euLocales"
  unfolding sameIgnoringCase_def
  using toLowerCase_euLocales by metis

lemma isEuTargeted_loop_iff: "isEuTargeted_loop locales = hasEuLanguage locales"
proof (induction locales)
  case Nil
  show ?case by (simp add: hasEuLanguage_def)
next
  case (Cons l ls)
  have "hasEuLanguage (l # ls)
          = (toLowerCase (languagePrefix l) \<in> set euLocales \<or> hasEuLanguage ls)"
    by (simp add: hasEuLanguage_def eu_member_ignoring_case)
  with Cons show ?case
    by (simp add: hd_split languagePrefix_def)
qed

lemma computeGeoCompliance_policy:
  "computeGeoCompliance locales = (if hasEuLanguage locales then euPolicy else globalPolicy)"
  by (simp add: computeGeoCompliance_def isEuTargeted_loop_iff euPolicy_def globalPolicy_def)

lemma validationErrors_integrationBrief: "validationErrors fixtureEnv integrationBrief = []"
  by (simp add: validationErrors_def fixtureEnv_def integrationBrief_def isValidUrl_def eval_strings)

lemma validationErrors_scenario3Brief: "validationErrors fixtureEnv scenario3Brief = []"
  by (simp add: validationErrors_def fixtureEnv_def scenario3Brief_def isValidUrl_def eval_strings)

lemma hasEuLanguage_integrationBrief: "hasEuLanguage (targetLocales integrationBrief)"
  by (simp add: integrationBrief_def hasEuLanguage_def sameIgnoringCase_def languagePrefix_def
      euLocales_def eval_strings)

lemma hasEuLanguage_scenario3Brief: "\<not> hasEuLanguage (targetLocales scenario3Brief)"
  by (simp add: scenario3Brief_def hasEuLanguage_def sameIgnoringCase_def languagePrefix_def
      euLocales_def eval_strings)

lemma fixture_fields:
  "campaignId integrationBrief = ''integration-test-2026''"
  "campaignId scenario3Brief = ''sc3-seo''"
  "isoNow fixtureEnv = ''2026-01-15T09:30:00.000Z''"
  by (simp_all add: integrationBrief_def scenario3Brief_def fixtureEnv_def)

text \<open>
  C2. For every list of target locales, validation returns a project whose
  compliance policy has \<open>requiresGDPR = cookieConsentActive = true\<close> and
  \<open>dataResidency = EU\<close> if and only if at least one locale has a language prefix
  (what stands before the \<open>-\<close>) that is, letter case aside, in the validator's EU
  language set; otherwise both flags are false and \<open>dataResidency = GLOBAL\<close>.
\<close>

theorem validateInput_compliance_iff:
  "\<exists>p. validateInput env input = Fulfilled p
       \<and> compliance p = computeGeoCompliance (targetLocales input)
       \<and> compliance p = (if hasEuLanguage (targetLocales input) then euPolicy else globalPolicy)
       \<and> ((requiresGDPR (compliance p) \<and> cookieConsentActive (compliance p)
            \<and> dataResidency (compliance p) = EU) \<longleftrightarrow> hasEuLanguage (targetLocales input))
       \<and> ((\<not> requiresGDPR (compliance p) \<and> \<not> cookieConsentActive (compliance p)
            \<and> dataResidency (compliance p) = GLOBAL) \<longleftrightarrow> \<not> hasEuLanguage (targetLocales input))"
  by (simp add: validateInput_def computeGeoCompliance_policy euPolicy_def globalPolicy_def)

theorem validateInput_compliance_iff_witness:
  "hasEuLanguage (targetLocales integrationBrief)
   \<and> validateInput fixtureEnv integrationBrief
       = Fulfilled \<lparr> projectId = ''integration-test-2026'',
                     timestamp = ''2026-01-15T09:30:00.000Z'',
                     status = VALIDATED,
                     payload = integrationBrief,
                     compliance = \<lparr> requiresGDPR = True, cookieConsentActive = True,
                                    dataResidency = EU \<rparr> \<rparr>
   \<and> \<not> hasEuLanguage (targetLocales scenario3Brief)
   \<and> validateInput fixtureEnv scenario3Brief
       = Fulfilled \<lparr> projectId = ''sc3-seo'',
                     timestamp = ''2026-01-15T09:30:00.000Z'',
                     status = VALIDATED,
                     payload = scenario3Brief,
                     compliance = \<lparr> requiresGDPR = False, cookieConsentActive = False,
                                    dataResidency = GLOBAL \<rparr> \<rparr>"
proof -
  from validateInput_compliance_iff [of fixtureEnv integrationBrief]
       validateInput_compliance_iff [of fixtureEnv scenario3Brief]
  show ?thesis
    by (auto simp: hasEuLanguage_integrationBrief hasEuLanguage_scenario3Brief
        validateInput_def validationErrors_integrationBrief validationErrors_scenario3Brief
        fixture_fields euPolicy_def globalPolicy_def)
qed

subsection \<open>Validation\<close>

lemma validationErrors_empty_iff:
  "validationErrors env input = [] \<longleftrightarrow> passesChecks env input"
  by (auto simp: validationErrors_def passesChecks_def Let_def)

lemma validateInput_Fulfilled:
  "validateInput env input =
     Fulfilled \<lparr> projectId = campaignId input, timestamp = isoNow env,
                 status = (if passesChecks env input then VALIDATED else FAILED),
                 payload = input,
                 compliance = computeGeoCompliance (targetLocales input) \<rparr>"
  by (simp add: validateInput_def validationErrors_empty_iff)

lemma validateInput_scenario1Brief:
  "validateInput scenario1Env scenario1Brief = Fulfilled scenario1Project"
proof -
  have checks: "passesChecks scenario1Env scenario1Brief"
    by (simp add: passesChecks_def scenario1Env_def scenario1Brief_def isValidUrl_def
        eval_strings)
  have eu: "hasEuLanguage (targetLocales scenario1Brief)"
    by (simp add: scenario1Brief_def hasEuLanguage_def sameIgnoringCase_def languagePrefix_def
        euLocales_def eval_strings)
  have fields: "campaignId scenario1Brief = ''sc1-partial-failure''"
               "isoNow scenario1Env = ''2026-01-15T09:30:00.000Z''"
    by (simp_all add: scenario1Brief_def scenario1Env_def)
  show ?thesis
    by (simp add: validateInput_Fulfilled checks computeGeoCompliance_policy eu fields
        scenario1Project_def)
qed

lemma checks_integrationBrief: "passesChecks fixtureEnv integrationBrief"
  using validationErrors_integrationBrief by (simp add: validationErrors_empty_iff)

lemma trim_withoutSurroundingWhiteSpace: "trim s = withoutSurroundingWhiteSpace s"
  unfolding trim_def withoutSurroundingWhiteSpace_def
  by (induction s) (auto simp: dropWhile_append dropWhile_eq_Nil_conv dest: set_dropWhileD)

lemma isValidUrl_urlParses: "\<not> urlParses env [] \<Longrightarrow> isValidUrl env url = urlParses env url"
  by (simp add: isValidUrl_def)

lemma passesChecks_checksOnTrimmed:
  assumes "\<not> urlParses env []"
  shows "passesChecks env input \<longleftrightarrow> checksOnTrimmed env input"
proof -
  have empty: "withoutSurroundingWhiteSpace [] = []"
    by (simp add: withoutSurroundingWhiteSpace_def)
  have brand: "brandName input = [] \<Longrightarrow> withoutSurroundingWhiteSpace (brandName input) = []"
    and message: "coreMessage input = [] \<Longrightarrow>
                    length (withoutSurroundingWhiteSpace (coreMessage input)) = 0"
    using empty by simp_all
  show ?thesis
    unfolding passesChecks_def checksOnTrimmed_def
      trim_withoutSurroundingWhiteSpace isValidUrl_urlParses [OF assms]
    using brand message by auto
qed

text \<open>
  C5 (as amended). For every brief, \<open>validateInput\<close> returns a project and does not
  throw; the status is \<open>FAILED\<close> if and only if at least one of the five checks
  fails (campaign identifier present with length at least 3, brand name non-empty,
  core message of length at least 10, each measured without its surrounding white
  space; at least one target locale; both asset URLs syntactically valid absolute
  URLs), and \<open>VALIDATED\<close> otherwise. The URL constructor rejects the empty string,
  which is the hypothesis on the environment.
\<close>

theorem validateInput_status:
  assumes "\<not> urlParses env []"
  shows "\<exists>p. validateInput env input = Fulfilled p
           \<and> (status p = FAILED \<longleftrightarrow> \<not> checksOnTrimmed env input)
           \<and> (status p = VALIDATED \<longleftrightarrow> checksOnTrimmed env input)"
  by (simp add: validateInput_Fulfilled passesChecks_checksOnTrimmed [OF assms])

theorem validateInput_status_witness:
  "\<not> urlParses fixtureEnv []
   \<and> checksOnTrimmed fixtureEnv integrationBrief
   \<and> validateInput fixtureEnv integrationBrief
       = Fulfilled \<lparr> projectId = ''integration-test-2026'',
                     timestamp = ''2026-01-15T09:30:00.000Z'',
                     status = VALIDATED,
                     payload = integrationBrief,
                     compliance = euPolicy \<rparr>
   \<and> \<not> checksOnTrimmed fixtureEnv
         (integrationBrief\<lparr>assets := \<lparr> logoUrl = ''logo.png'',
                                        keywordsCsvUrl = ''https://example.com/keywords.csv'' \<rparr>\<rparr>)
   \<and> validateInput fixtureEnv
         (integrationBrief\<lparr>assets := \<lparr> logoUrl = ''logo.png'',
                                        keywordsCsvUrl = ''https://example.com/keywords.csv'' \<rparr>\<rparr>)
       = Fulfilled \<lparr> projectId = ''integration-test-2026'',
                     timestamp = ''2026-01-15T09:30:00.000Z'',
                     status = FAILED,
                     payload = integrationBrief\<lparr>assets := \<lparr> logoUrl = ''logo.png'',
                                        keywordsCsvUrl = ''https://example.com/keywords.csv'' \<rparr>\<rparr>,
                     compliance = euPolicy \<rparr>"
proof -
  let ?bad = "integrationBrief\<lparr>assets := \<lparr> logoUrl = ''logo.png'',
                                        keywordsCsvUrl = ''https://example.com/keywords.csv'' \<rparr>\<rparr>"
  have env: "\<not> urlParses fixtureEnv []"
    by (simp add: fixtureEnv_def)
  have logo: "\<not> urlParses fixtureEnv ''logo.png''"
    by (simp add: fixtureEnv_def)
  have ok: "checksOnTrimmed fixtureEnv integrationBrief"
    using checks_integrationBrief by (simp add: passesChecks_checksOnTrimmed [OF env])
  have bad: "\<not> checksOnTrimmed fixtureEnv ?bad"
    using logo by (simp add: checksOnTrimmed_def)
  have eu: "hasEuLanguage (targetLocales ?bad)"
    using hasEuLanguage_integrationBrief by simp
  have ids: "campaignId ?bad = ''integration-test-2026''"
    by (simp add: fixture_fields)
  from validateInput_status [OF env, of integrationBrief] validateInput_status [OF env, of ?bad]
  show ?thesis
    using env ok bad eu
    by (auto simp: validateInput_Fulfilled computeGeoCompliance_policy
        hasEuLanguage_integrationBrief fixture_fields ids)
qed

text \<open>
  C5 (as stated) fails on a padded field: the campaign identifier \<open>ab\<close> followed
  by two blanks has length 4, every check holds on the fields as submitted, and
  the status is \<open>FAILED\<close>.
\<close>

theorem validateInput_padded_counterexample:
  "checksAsStated fixtureEnv (integrationBrief\<lparr>campaignId := ''ab  ''\<rparr>)
   \<and> validateInput fixtureEnv (integrationBrief\<lparr>campaignId := ''ab  ''\<rparr>)
       = Fulfilled \<lparr> projectId = ''ab  '',
                     timestamp = ''2026-01-15T09:30:00.000Z'',
                     status = FAILED,
                     payload = integrationBrief\<lparr>campaignId := ''ab  ''\<rparr>,
                     compliance = euPolicy \<rparr>"
proof -
  have stated: "checksAsStated fixtureEnv (integrationBrief\<lparr>campaignId := ''ab  ''\<rparr>)"
    by (simp add: checksAsStated_def fixtureEnv_def integrationBrief_def)
  have errs: "validationErrors fixtureEnv (integrationBrief\<lparr>campaignId := ''ab  ''\<rparr>)
                = [''Invariant Violation: campaignId must be at least 3 characters.'']"
    by (simp add: validationErrors_def fixtureEnv_def integrationBrief_def isValidUrl_def
        eval_strings)
  have eu: "hasEuLanguage (targetLocales (integrationBrief\<lparr>campaignId := ''ab  ''\<rparr>))"
    using hasEuLanguage_integrationBrief by simp
  show ?thesis
    using stated eu
    by (simp add: validateInput_def errs computeGeoCompliance_policy fixture_fields)
qed

subsection \<open>Truncation\<close>

lemma truncate_short: "length s \<le> n \<Longrightarrow> truncate s n = s"
  by (simp add: truncate_def)

lemma truncate_long:
  assumes "n < length s" and "3 \<le> n"
  shows "truncate s n = take (n - 3) s @ ''...''"
    and "length (truncate s n) = n"
    and "drop (n - 3) (truncate s n) = ''...''"
proof -
  have len: "length (take (n - 3) s) = n - 3"
    using assms by simp
  show "truncate s n = take (n - 3) s @ ''...''"
    using assms by (simp add: truncate_def)
  then show "length (truncate s n) = n"
    using assms len by simp
  show "drop (n - 3) (truncate s n) = ''...''"
    using assms len by (simp add: truncate_def)
qed

lemma length_truncate: "3 \<le> n \<Longrightarrow> length (truncate s n) \<le> n"
  by (cases "length s \<le> n") (simp_all add: truncate_short truncate_long(2))

text \<open>
  C7. For every string, truncation to the title limit (60) and to the description
  limit (160) returns the string unchanged when its length is at most the limit,
  and otherwise a string of exactly the limit's length whose last three characters
  are the ellipsis marker \<open>...\<close>; the title and the description of the metadata
  are these truncations.
\<close>

theorem truncate_limits:
  "(length s \<le> MAX_TITLE_LENGTH \<longrightarrow> truncate s MAX_TITLE_LENGTH = s)
   \<and> (MAX_TITLE_LENGTH < length s \<longrightarrow>
        length (truncate s MAX_TITLE_LENGTH) = 60
        \<and> drop 57 (truncate s MAX_TITLE_LENGTH) = ''...'')
   \<and> (length s \<le> MAX_DESC_LENGTH \<longrightarrow> truncate s MAX_DESC_LENGTH = s)
   \<and> (MAX_DESC_LENGTH < length s \<longrightarrow>
        length (truncate s MAX_DESC_LENGTH) = 160
        \<and> drop 157 (truncate s MAX_DESC_LENGTH) = ''...'')
   \<and> title (generateMetadata variant keyword)
        = truncate (heroTitle variant @ '' | '' @ keyword) MAX_TITLE_LENGTH
   \<and> description (generateMetadata variant keyword)
        = truncate (take 100 (bodyCopy variant) @ ''... '' @ ctaText variant) MAX_DESC_LENGTH"
proof -
  have t: "MAX_TITLE_LENGTH < length s \<Longrightarrow>
             length (truncate s MAX_TITLE_LENGTH) = 60 \<and> drop 57 (truncate s MAX_TITLE_LENGTH) = ''...''"
    using truncate_long(2,3) [of MAX_TITLE_LENGTH s] by (simp add: MAX_TITLE_LENGTH_def)
  have d: "MAX_DESC_LENGTH < length s \<Longrightarrow>
             length (truncate s MAX_DESC_LENGTH) = 160 \<and> drop 157 (truncate s MAX_DESC_LENGTH) = ''...''"
    using truncate_long(2,3) [of MAX_DESC_LENGTH s] by (simp add: MAX_DESC_LENGTH_def)
  have m: "title (generateMetadata variant keyword)
             = truncate (heroTitle variant @ '' | '' @ keyword) MAX_TITLE_LENGTH"
          "description (generateMetadata variant keyword)
             = truncate (take 100 (bodyCopy variant) @ ''... '' @ ctaText variant) MAX_DESC_LENGTH"
    by (simp_all add: generateMetadata_def Let_def)
  show ?thesis
    using t d m by (simp add: truncate_short)
qed

theorem truncate_limits_witness:
  "truncate ''[EN-US] Future of Living: Semantic SEO 2026 Test... | Best Villas'' MAX_TITLE_LENGTH
     = ''[EN-US] Future of Living: Semantic SEO 2026 Test... | Bes...''
   \<and> truncate ''[EN-US] Valid | Best Villas'' MAX_TITLE_LENGTH = ''[EN-US] Valid | Best Villas''
   \<and> length (truncate (replicate 200 CHR ''x'') MAX_DESC_LENGTH) = 160
   \<and> drop 157 (truncate (replicate 200 CHR ''x'') MAX_DESC_LENGTH) = ''...''
   \<and> truncate ''Oui... Allez'' MAX_DESC_LENGTH = ''Oui... Allez''"
  using truncate_limits [of "''[EN-US] Future of Living: Semantic SEO 2026 Test... | Best Villas''"]
        truncate_limits [of "''[EN-US] Valid | Best Villas''"]
        truncate_limits [of "replicate 200 CHR ''x''"]
        truncate_limits [of "''Oui... Allez''"]
  by (simp add: MAX_TITLE_LENGTH_def MAX_DESC_LENGTH_def truncate_def)

subsection \<open>Hreflang\<close>

lemma hreflang_loop_lookup:
  "hreflang_loop locs m loc = (if loc \<in> set locs then Some (stubUrlBuilder loc) else m loc)"
  by (induction locs arbitrary: m) auto

lemma generateHreflangMap_lookup:
  "generateHreflangMap loc = (if loc \<in> set supportedLocales then Some (stubUrlBuilder loc) else None)"
  by (simp add: generateHreflangMap_def hreflang_loop_lookup)

lemma dom_generateHreflangMap: "dom generateHreflangMap = set supportedLocales"
  by (auto simp: dom_def generateHreflangMap_lookup)

lemma card_supportedLocales: "card (set supportedLocales) = 5"
  by (simp add: supportedLocales_def)

lemma optimizeSEO_valid:
  assumes "locale_of variant \<noteq> []" and "heroTitle variant \<noteq> []"
  shows "\<exists>ks k. optimizeSEO variant =
           Fulfilled \<lparr> locale_of = locale_of variant, heroTitle = heroTitle variant,
                       bodyCopy = bodyCopy variant, ctaText = ctaText variant,
                       layoutId = layoutId variant,
                       seo = generateMetadata variant k, keywordsApplied = ks \<rparr>"
  using assms by (simp add: optimizeSEO_def stubKeywordDatabase_def Let_def) blast

text \<open>
  C8. For every variant with a locale and a headline, whatever its locale,
  \<open>optimizeSEO\<close> returns metadata whose hreflang table has exactly the five
  reference locales as keys, each mapped to the URL the URL builder gives it, the
  same builder that gives the canonical URL.
\<close>

theorem optimizeSEO_hreflang:
  assumes "locale_of variant \<noteq> []" and "heroTitle variant \<noteq> []"
  shows "\<exists>optimized. optimizeSEO variant = Fulfilled optimized
           \<and> dom (hreflang (seo optimized)) = {''en-US'', ''it-IT'', ''fr-FR'', ''es-ES'', ''de-DE''}
           \<and> card (dom (hreflang (seo optimized))) = 5
           \<and> (\<forall>loc \<in> dom (hreflang (seo optimized)).
                 hreflang (seo optimized) loc = Some (stubUrlBuilder loc))
           \<and> canonicalUrl (seo optimized) = stubUrlBuilder (locale_of variant)"
proof -
  obtain ks k where opt: "optimizeSEO variant =
           Fulfilled \<lparr> locale_of = locale_of variant, heroTitle = heroTitle variant,
                       bodyCopy = bodyCopy variant, ctaText = ctaText variant,
                       layoutId = layoutId variant,
                       seo = generateMetadata variant k, keywordsApplied = ks \<rparr>"
    using optimizeSEO_valid [OF assms] by blast
  have h: "hreflang (generateMetadata variant k) = generateHreflangMap"
    and c: "canonicalUrl (generateMetadata variant k) = stubUrlBuilder (locale_of variant)"
    by (simp_all add: generateMetadata_def Let_def)
  have set5: "set supportedLocales = {''en-US'', ''it-IT'', ''fr-FR'', ''es-ES'', ''de-DE''}"
    by (simp add: supportedLocales_def)
  show ?thesis
    unfolding opt
    using dom_generateHreflangMap card_supportedLocales set5
    by (simp add: h c generateHreflangMap_lookup)
qed

theorem optimizeSEO_hreflang_witness:
  "\<exists>optimized.
      optimizeSEO \<lparr> locale_of = ''pl-PL'', heroTitle = ''[pl-PL] Valid'',
                    bodyCopy = ''Valid content for pl-PL'', ctaText = ''Click'',
                    layoutId = ''layout-standard'' \<rparr> = Fulfilled optimized
      \<and> hreflang (seo optimized) ''de-DE'' = Some ''https://microsite-factory.com/de-DE/campaign-mvc''
      \<and> hreflang (seo optimized) ''pl-PL'' = None
      \<and> canonicalUrl (seo optimized) = ''https://microsite-factory.com/pl-PL/campaign-mvc''"
proof -
  let ?v = "\<lparr> locale_of = ''pl-PL'', heroTitle = ''[pl-PL] Valid'',
               bodyCopy = ''Valid content for pl-PL'', ctaText = ''Click'',
               layoutId = ''layout-standard'' \<rparr>"
  obtain optimized where opt: "optimizeSEO ?v = Fulfilled optimized"
    and d: "dom (hreflang (seo optimized)) = {''en-US'', ''it-IT'', ''fr-FR'', ''es-ES'', ''de-DE''}"
    and u: "\<forall>loc \<in> dom (hreflang (seo optimized)).
              hreflang (seo optimized) loc = Some (stubUrlBuilder loc)"
    and c: "canonicalUrl (seo optimized) = stubUrlBuilder (locale_of ?v)"
    using optimizeSEO_hreflang [of ?v] by force
  have "''de-DE'' \<in> dom (hreflang (seo optimized))"
    unfolding d by simp
  with u have de: "hreflang (seo optimized) ''de-DE'' = Some (stubUrlBuilder ''de-DE'')"
    by (rule bspec)
  have "''pl-PL'' \<notin> dom (hreflang (seo optimized))"
    unfolding d by simp
  then have pl: "hreflang (seo optimized) ''pl-PL'' = None"
    by (simp add: domIff)
  show ?thesis
    using opt de pl c by (simp add: stubUrlBuilder_def)
qed

subsection \<open>Deployment\<close>

lemma executeGeoDeploy_nonempty:
  assumes "seoVariants \<noteq> []"
  shows "executeGeoDeploy env seoVariants policy =
           Fulfilled \<lparr> deploymentId = ''dpl_'' @ determineEdgeRegion (map locale_of seoVariants)
                                        @ ''_'' @ nowBase36 env,
                       edgeRegion = determineEdgeRegion (map locale_of seoVariants),
                       isLive = True,
                       telemetryEndpoint = ''https://analytics.microsite-factory.com/v1/events/''
                          @ ''dpl_'' @ determineEdgeRegion (map locale_of seoVariants)
                          @ ''_'' @ nowBase36 env,
                       middlewareRules = \<lparr> geoBlocking = False,
                                           consentRequired = requiresGDPR policy \<rparr> \<rparr>"
  using assms
  by (simp add: executeGeoDeploy_def stubVercelDeploy_def stubTelemetryProvisioning_def Let_def)

lemma executeGeoDeploy_never_global:
  assumes "executeGeoDeploy env seoVariants policy = Fulfilled cfg"
  shows "edgeRegion cfg \<noteq> ''global''"
proof (cases "seoVariants = []")
  case True
  with assms show ?thesis by (simp add: executeGeoDeploy_def)
next
  case False
  then have "determineEdgeRegion (map locale_of seoVariants) \<noteq> ''global''"
    by (simp add: determineEdgeRegion_global_iff)
  with assms False show ?thesis
    by (auto simp: executeGeoDeploy_nonempty)
qed

text \<open>
  C3. For every non-empty list of optimized variants and every policy,
  \<open>executeGeoDeploy\<close> returns a configuration whose \<open>consentRequired\<close> is the
  policy's \<open>requiresGDPR\<close>; a second run with the same policy, on any other
  non-empty list of variants and at any other time, gives the same
  \<open>consentRequired\<close>.
\<close>

theorem executeGeoDeploy_consent:
  assumes "seoVariants \<noteq> []" and "otherVariants \<noteq> []"
  shows "\<exists>cfg cfg'. executeGeoDeploy env seoVariants policy = Fulfilled cfg
           \<and> executeGeoDeploy env' otherVariants policy = Fulfilled cfg'
           \<and> consentRequired (middlewareRules cfg) = requiresGDPR policy
           \<and> consentRequired (middlewareRules cfg') = consentRequired (middlewareRules cfg)"
  by (simp add: executeGeoDeploy_nonempty [OF assms(1)] executeGeoDeploy_nonempty [OF assms(2)])

theorem executeGeoDeploy_consent_witness:
  "executeGeoDeploy fixtureEnv seoVariantsFr globalPolicy =
     Fulfilled \<lparr> deploymentId = ''dpl_fra1_mkf3x2a1'',
                 edgeRegion = ''fra1'',
                 isLive = True,
                 telemetryEndpoint = ''https://analytics.microsite-factory.com/v1/events/dpl_fra1_mkf3x2a1'',
                 middlewareRules = \<lparr> geoBlocking = False, consentRequired = False \<rparr> \<rparr>
   \<and> executeGeoDeploy scenario1Env
         [\<lparr> locale_of = ''en-US'', heroTitle = ''Hello'', bodyCopy = ''Yes'', ctaText = ''Go'',
            layoutId = ''std'',
            seo = \<lparr> title = [], description = [], ogTags = [], canonicalUrl = [],
                    hreflang = Map.empty, structuredData = [] \<rparr>,
            keywordsApplied = Keywords [] \<rparr>]
         globalPolicy =
     Fulfilled \<lparr> deploymentId = ''dpl_iad1_mkf3x2a1'',
                 edgeRegion = ''iad1'',
                 isLive = True,
                 telemetryEndpoint = ''https://analytics.microsite-factory.com/v1/events/dpl_iad1_mkf3x2a1'',
                 middlewareRules = \<lparr> geoBlocking = False, consentRequired = False \<rparr> \<rparr>
   \<and> requiresGDPR globalPolicy = False
   \<and> isEuLocale ''fr-FR''"
proof -
  let ?us = "[\<lparr> locale_of = ''en-US'', heroTitle = ''Hello'', bodyCopy = ''Yes'', ctaText = ''Go'',
            layoutId = ''std'',
            seo = \<lparr> title = [], description = [], ogTags = [], canonicalUrl = [],
                    hreflang = Map.empty, structuredData = [] \<rparr>,
            keywordsApplied = Keywords [] \<rparr>]"
  have fr: "isEuLocale ''fr-FR''" and en: "\<not> isEuLocale ''en-US''"
    by (simp_all add: isEuLocale_def euPrefixes_def eval_strings)
  have locs: "map locale_of seoVariantsFr = [''fr-FR'']"
    by (simp add: seoVariantsFr_def)
  have region: "determineEdgeRegion [''fr-FR''] = ''fra1''"
               "determineEdgeRegion [''en-US''] = ''iad1''"
    using fr en by (simp_all add: determineEdgeRegion_def)
  have ne: "seoVariantsFr \<noteq> []" "?us \<noteq> []"
    by (simp_all add: seoVariantsFr_def)
  have token: "nowBase36 fixtureEnv = ''mkf3x2a1''" "nowBase36 scenario1Env = ''mkf3x2a1''"
    by (simp_all add: fixtureEnv_def scenario1Env_def)
  show ?thesis
    using executeGeoDeploy_consent [OF ne, of fixtureEnv globalPolicy scenario1Env] fr
    by (simp add: executeGeoDeploy_nonempty [OF ne(1)] executeGeoDeploy_nonempty [OF ne(2)]
        locs region token globalPolicy_def)
qed

subsection \<open>Generation\<close>

lemma length_fold_settle:
  "length (fold (\<lambda>i slots. if i < n then slots[i := Some (tasks ! i)] else slots) order init)
     = length init"
  by (induction order arbitrary: init) auto

lemma nth_fold_settle:
  "j < length init \<Longrightarrow> length init = n \<Longrightarrow>
   fold (\<lambda>i slots. if i < n then slots[i := Some (tasks ! i)] else slots) order init ! j
     = (if j \<in> set order then Some (tasks ! j) else init ! j)"
proof (induction order arbitrary: init)
  case Nil
  then show ?case by simp
next
  case (Cons i order)
  show ?case
  proof (cases "i < n")
    case True
    with Cons.prems Cons.IH [of "init[i := Some (tasks ! i)]"] show ?thesis
      by (auto simp: nth_list_update)
  next
    case False
    with Cons.prems Cons.IH [of init] show ?thesis
      by auto
  qed
qed

lemma settle_nth:
  "j < length tasks \<Longrightarrow>
   settle order tasks ! j = (if j \<in> set order then Some (tasks ! j) else None)"
  unfolding settle_def by (subst nth_fold_settle) simp_all

lemma length_settle: "length (settle order tasks) = length tasks"
  unfolding settle_def by (simp add: length_fold_settle)

lemma settle_complete:
  assumes "{..<length tasks} \<subseteq> set order"
  shows "settle order tasks = map Some tasks"
proof (rule nth_equalityI)
  show "length (settle order tasks) = length (map Some tasks)"
    by (simp add: length_settle)
next
  fix j assume "j < length (settle order tasks)"
  then have j: "j < length tasks" by (simp add: length_settle)
  then have "j \<in> set order" using assms by auto
  with j show "settle order tasks ! j = map Some tasks ! j"
    by (simp add: settle_nth)
qed

lemma allSettled_complete:
  assumes "{..<length tasks} \<subseteq> set order"
  shows "allSettled order tasks = Fulfilled tasks"
  by (simp add: allSettled_def settle_complete [OF assms] Let_def comp_def)

lemma allSettled_incomplete:
  assumes "j < length tasks" and "j \<notin> set order"
  shows "allSettled order tasks = Pending"
proof -
  have "settle order tasks ! j = None"
    using assms by (simp add: settle_nth)
  then have "None \<in> set (settle order tasks)"
    using assms(1) by (metis length_settle nth_mem)
  then show ?thesis
    by (simp add: allSettled_def)
qed

lemma collectResults_filter:
  "collectResults rs vs es =
     (vs @ map projr (filter (\<lambda>r. \<not> isl r) rs), es @ map (\<lambda>r. String_of (projl r)) (filter isl rs))"
  by (induction rs vs es rule: collectResults.induct) simp_all

lemma everyTaskSettles_tasks:
  "everyTaskSettles order project \<Longrightarrow> {..<length (generationTasks env project)} \<subseteq> set order"
  by (simp add: everyTaskSettles_def generationTasks_def atLeast_upt)

lemma generateCreatives_validated:
  assumes "status project = VALIDATED" and "everyTaskSettles (completion env) project"
  shows "generateCreatives env project =
           Fulfilled \<lparr> output_projectId = projectId project,
                       variants = map projr (filter (\<lambda>r. \<not> isl r) (generationTasks env project)),
                       generationModel = ''gpt-4o-stub-v1'',
                       errors = (if failedTasks env project = [] then None
                                 else Some (map (\<lambda>r. String_of (projl r)) (failedTasks env project))) \<rparr>"
proof -
  have settled: "allSettled (completion env) (generationTasks env project)
                   = Fulfilled (generationTasks env project)"
    using assms(2) by (intro allSettled_complete everyTaskSettles_tasks)
  show ?thesis
    using assms(1) settled
    by (simp add: generateCreatives_def generationTasks_def [symmetric] collectResults_filter
        stubPersistenceLayer_def failedTasks_def Let_def)
qed

lemma length_filter_isl:
  "length (filter (\<lambda>r. \<not> isl r) rs) = length rs - length (filter isl rs)"
  using sum_length_filter_compl [of isl rs] by simp

text \<open>
  C4. For every validated project with \<open>N\<close> target locales whose generation tasks
  all settle, \<open>K\<close> of them rejected, \<open>generateCreatives\<close> returns an outcome with
  exactly \<open>N - K\<close> variants and exactly \<open>K\<close> failure messages (the \<open>errors\<close>
  field is left \<open>undefined\<close> when \<open>K = 0\<close>), so successes and failures together
  number \<open>N\<close>.
\<close>

theorem generateCreatives_counts:
  assumes "status project = VALIDATED" and "everyTaskSettles (completion env) project"
  shows "\<exists>out. generateCreatives env project = Fulfilled out
           \<and> length (variants out)
               = length (targetLocales (payload project)) - length (failedTasks env project)
           \<and> length (failureMessages out) = length (failedTasks env project)
           \<and> length (variants out) + length (failureMessages out)
               = length (targetLocales (payload project))
           \<and> (errors out = None \<longleftrightarrow> failedTasks env project = [])"
proof -
  have n: "length (generationTasks env project) = length (targetLocales (payload project))"
    by (simp add: generationTasks_def)
  have k: "length (failedTasks env project) \<le> length (targetLocales (payload project))"
    unfolding failedTasks_def n [symmetric] by (rule length_filter_le)
  show ?thesis
    unfolding generateCreatives_validated [OF assms]
    using n k
    by (simp add: failureMessages_def length_filter_isl failedTasks_def [symmetric])
qed

lemma succeeded_locales_map:
  assumes "\<forall>l \<in> set ls. case g l of Inl reason \<Rightarrow> True | Inr v \<Rightarrow> locale_of v = l"
  shows "map locale_of (map projr (filter (\<lambda>r. \<not> isl r) (map g ls)))
           = filter (\<lambda>l. \<not> isl (g l)) ls"
  using assms
proof (induction ls)
  case Nil
  show ?case by simp
next
  case (Cons l ls)
  then show ?case
    by (cases "g l") simp_all
qed

text \<open>
  C9. For every validated project whose generation tasks all settle, with a
  provider that answers each locale with a variant of that locale, the locales of
  the returned variants are the target locales whose task was fulfilled, in the
  order of the target-locale list; every order of completion in which all tasks
  settle gives the same outcome.
\<close>

theorem generateCreatives_order:
  assumes "status project = VALIDATED"
    and "everyTaskSettles (completion env) project"
    and "providerKeepsLocale env project"
  shows "\<exists>out. generateCreatives env project = Fulfilled out
           \<and> map locale_of (variants out) = succeededLocales env project
           \<and> (\<forall>order. everyTaskSettles order project \<longrightarrow>
                 generateCreatives (env\<lparr>completion := order\<rparr>) project = Fulfilled out)"
proof -
  have same: "generationTasks (env\<lparr>completion := order\<rparr>) project = generationTasks env project"
             "failedTasks (env\<lparr>completion := order\<rparr>) project = failedTasks env project"
    for order
    by (simp_all add: generationTasks_def failedTasks_def)
  have other: "generateCreatives (env\<lparr>completion := order\<rparr>) project = generateCreatives env project"
    if "everyTaskSettles order project" for order
    using that assms(1,2)
    by (simp add: generateCreatives_validated same)
  have locales: "map locale_of (map projr (filter (\<lambda>r. \<not> isl r) (generationTasks env project)))
                   = succeededLocales env project"
    unfolding generationTasks_def succeededLocales_def
    using assms(3) by (intro succeeded_locales_map) (simp add: providerKeepsLocale_def)
  show ?thesis
    using other locales
    by (simp add: generateCreatives_validated [OF assms(1,2)])
qed

lemma scenario1_settles: "everyTaskSettles (completion scenario1Env) scenario1Project"
  by (simp add: everyTaskSettles_def scenario1Env_def scenario1Project_def scenario1Brief_def
      upt_conv_Cons)

lemma scenario1_status: "status scenario1Project = VALIDATED"
  by (simp add: scenario1Project_def)

lemma scenario1_failedTasks:
  "failedTasks scenario1Env scenario1Project =
     [Inl (Error ''Simulated API Timeout for de-DE''), Inl (Error ''Simulated API Timeout for ja-JP'')]"
  by (simp add: failedTasks_def generationTasks_def scenario1Env_def scenario1Project_def
      scenario1Brief_def scenario1AIGeneration_def)

theorem generateCreatives_counts_witness:
  "validateInput scenario1Env scenario1Brief = Fulfilled scenario1Project
   \<and> length (targetLocales (payload scenario1Project)) = 10
   \<and> length (failedTasks scenario1Env scenario1Project) = 2
   \<and> (\<exists>out. generateCreatives scenario1Env scenario1Project = Fulfilled out
          \<and> length (variants out) = 8
          \<and> length (failureMessages out) = 2)"
proof -
  have n: "length (targetLocales (payload scenario1Project)) = 10"
    by (simp add: scenario1Project_def scenario1Brief_def)
  show ?thesis
    using generateCreatives_counts [OF scenario1_status scenario1_settles] n
    by (auto simp: scenario1_failedTasks validateInput_scenario1Brief)
qed

lemma scenario1_keepsLocale: "providerKeepsLocale scenario1Env scenario1Project"
  by (simp add: providerKeepsLocale_def scenario1Env_def scenario1Project_def
      scenario1Brief_def scenario1AIGeneration_def)

lemma scenario1_succeededLocales:
  "succeededLocales scenario1Env scenario1Project =
     [''en-US'', ''it-IT'', ''fr-FR'', ''es-ES'', ''pt-PT'', ''nl-NL'', ''pl-PL'', ''se-SE'']"
  by (simp add: succeededLocales_def scenario1Env_def scenario1Project_def
      scenario1Brief_def scenario1AIGeneration_def)

theorem generateCreatives_order_witness:
  "\<exists>out. generateCreatives scenario1Env scenario1Project = Fulfilled out
      \<and> map locale_of (variants out) =
          [''en-US'', ''it-IT'', ''fr-FR'', ''es-ES'', ''pt-PT'', ''nl-NL'', ''pl-PL'', ''se-SE'']
      \<and> generateCreatives (scenario1Env\<lparr>completion := [0, 1, 2, 3, 4, 5, 6, 7, 8, 9]\<rparr>)
            scenario1Project = Fulfilled out"
proof -
  have other: "everyTaskSettles [0, 1, 2, 3, 4, 5, 6, 7, 8, 9] scenario1Project"
    by (simp add: everyTaskSettles_def scenario1Project_def scenario1Brief_def upt_conv_Cons)
  obtain out where out: "generateCreatives scenario1Env scenario1Project = Fulfilled out"
    and locs: "map locale_of (variants out) = succeededLocales scenario1Env scenario1Project"
    and any: "\<forall>order. everyTaskSettles order scenario1Project \<longrightarrow>
                 generateCreatives (scenario1Env\<lparr>completion := order\<rparr>) scenario1Project
                   = Fulfilled out"
    using generateCreatives_order [OF scenario1_status scenario1_settles scenario1_keepsLocale]
    by blast
  from any other
  have "generateCreatives (scenario1Env\<lparr>completion := [0, 1, 2, 3, 4, 5, 6, 7, 8, 9]\<rparr>)
          scenario1Project = Fulfilled out"
    by blast
  with out locs show ?thesis
    by (simp add: scenario1_succeededLocales)
qed

subsection \<open>The pipeline\<close>

lemma andThen_log_prefix: "\<exists>rest r. andThen (log, p) k = (log @ rest, r)"
proof (cases p)
  case (Fulfilled x)
  then show ?thesis by (cases "k x") simp
qed simp_all

text \<open>
  C6. For every brief, validation returns a project. When its status is
  \<open>FAILED\<close>, \<open>runPipeline\<close> rejects with the pipeline-halt error and the only call
  it has made is the validation: no generation, optimization or deployment. When
  its status is \<open>VALIDATED\<close>, the call after validation is the generation.
\<close>

theorem runPipeline_halts:
  "\<exists>p. validateInput env brief = Fulfilled p
       \<and> (status p = FAILED \<longrightarrow>
            runPipeline env brief
              = ([CallValidateInput], Rejected (Error ''Pipeline Halted: Input validation failed.'')))
       \<and> (status p = VALIDATED \<longrightarrow>
            (\<exists>rest result. runPipeline env brief
               = (CallValidateInput # CallGenerateCreatives # rest, result)))"
proof -
  let ?p = "\<lparr> projectId = campaignId brief, timestamp = isoNow env,
               status = (if passesChecks env brief then VALIDATED else FAILED),
               payload = brief,
               compliance = computeGeoCompliance (targetLocales brief) \<rparr>"
  have failed: "runPipeline env brief
              = ([CallValidateInput], Rejected (Error ''Pipeline Halted: Input validation failed.''))"
    if "status ?p = FAILED"
    using that
    by (simp add: runPipeline_def orchestrator_validateInput_def validateInput_Fulfilled)
  have validated: "\<exists>rest result. runPipeline env brief
               = (CallValidateInput # CallGenerateCreatives # rest, result)"
    if v: "status ?p = VALIDATED"
  proof -
    obtain rest result where
      "andThen ([CallGenerateCreatives], generateCreatives env ?p)
         (\<lambda>creativeOutput.
            andThen (orchestrator_optimizeSEO (variants creativeOutput)) (\<lambda>seoVariants.
              orchestrator_executeGeoDeploy env seoVariants (compliance ?p)))
       = ([CallGenerateCreatives] @ rest, result)"
      using andThen_log_prefix by blast
    with v show ?thesis
      by (simp add: runPipeline_def orchestrator_validateInput_def validateInput_Fulfilled
          orchestrator_generateCreatives_def split: if_splits)
  qed
  show ?thesis
    using failed validated by (simp add: validateInput_Fulfilled)
qed

lemma fixture_settles:
  "everyTaskSettles (completion fixtureEnv)
     \<lparr> projectId = pid, timestamp = ts, status = st, payload = integrationBrief, compliance = c \<rparr>"
  by (simp add: everyTaskSettles_def fixtureEnv_def integrationBrief_def upt_conv_Cons)

lemma runPipeline_integrationBrief:
  "runPipeline fixtureEnv integrationBrief =
     ([CallValidateInput, CallGenerateCreatives, CallOptimizeSEO ''en-US'',
       CallOptimizeSEO ''it-IT'', CallOptimizeSEO ''de-DE'', CallExecuteGeoDeploy],
      Fulfilled \<lparr> deploymentId = ''dpl_fra1_mkf3x2a1'',
                  edgeRegion = ''fra1'',
                  isLive = True,
                  telemetryEndpoint = ''https://analytics.microsite-factory.com/v1/events/dpl_fra1_mkf3x2a1'',
                  middlewareRules = \<lparr> geoBlocking = False, consentRequired = True \<rparr> \<rparr>)"
proof -
  let ?p = "\<lparr> projectId = campaignId integrationBrief, timestamp = isoNow fixtureEnv,
               status = VALIDATED, payload = integrationBrief,
               compliance = euPolicy \<rparr>"
  have v: "validateInput fixtureEnv integrationBrief = Fulfilled ?p"
    by (simp add: validateInput_Fulfilled checks_integrationBrief computeGeoCompliance_policy
        hasEuLanguage_integrationBrief)
  have tasks: "generationTasks fixtureEnv ?p =
                 [stubAIGeneration (coreMessage integrationBrief) ''en-US'',
                  stubAIGeneration (coreMessage integrationBrief) ''it-IT'',
                  stubAIGeneration (coreMessage integrationBrief) ''de-DE'']"
    by (simp add: generationTasks_def fixtureEnv_def integrationBrief_def)
  have g: "\<exists>v1 v2 v3. generateCreatives fixtureEnv ?p =
             Fulfilled \<lparr> output_projectId = campaignId integrationBrief,
                         variants = [v1, v2, v3], generationModel = ''gpt-4o-stub-v1'',
                         errors = None \<rparr>
           \<and> locale_of v1 = ''en-US'' \<and> locale_of v2 = ''it-IT'' \<and> locale_of v3 = ''de-DE''
           \<and> heroTitle v1 \<noteq> [] \<and> heroTitle v2 \<noteq> [] \<and> heroTitle v3 \<noteq> []"
    by (simp add: generateCreatives_validated fixture_settles failedTasks_def tasks
        stubAIGeneration_def)
  then obtain v1 v2 v3 where gen: "generateCreatives fixtureEnv ?p =
             Fulfilled \<lparr> output_projectId = campaignId integrationBrief,
                         variants = [v1, v2, v3], generationModel = ''gpt-4o-stub-v1'',
                         errors = None \<rparr>"
     and l: "locale_of v1 = ''en-US''" "locale_of v2 = ''it-IT''" "locale_of v3 = ''de-DE''"
     and h: "heroTitle v1 \<noteq> []" "heroTitle v2 \<noteq> []" "heroTitle v3 \<noteq> []"
    by blast
  obtain o1 where o1: "optimizeSEO v1 = Fulfilled o1" "locale_of o1 = ''en-US''"
    using optimizeSEO_valid [of v1] l h by auto
  obtain o2 where o2: "optimizeSEO v2 = Fulfilled o2" "locale_of o2 = ''it-IT''"
    using optimizeSEO_valid [of v2] l h by auto
  obtain o3 where o3: "optimizeSEO v3 = Fulfilled o3" "locale_of o3 = ''de-DE''"
    using optimizeSEO_valid [of v3] l h by auto
  have region: "determineEdgeRegion [''en-US'', ''it-IT'', ''de-DE''] = ''fra1''"
    by (simp add: determineEdgeRegion_def isEuLocale_def euPrefixes_def eval_strings)
  have token: "nowBase36 fixtureEnv = ''mkf3x2a1''"
    by (simp add: fixtureEnv_def)
  have req: "requiresGDPR euPolicy"
    by (simp add: euPolicy_def)
  show ?thesis
    by (simp add: runPipeline_def orchestrator_validateInput_def v
        orchestrator_generateCreatives_def gen orchestrator_optimizeSEO_def l o1 o2 o3
        orchestrator_executeGeoDeploy_def executeGeoDeploy_nonempty region req token)
qed

theorem runPipeline_halts_witness:
  "runPipeline fixtureEnv (integrationBrief\<lparr>campaignId := ''ab  ''\<rparr>)
     = ([CallValidateInput], Rejected (Error ''Pipeline Halted: Input validation failed.''))
   \<and> fst (runPipeline fixtureEnv integrationBrief)
     = [CallValidateInput, CallGenerateCreatives, CallOptimizeSEO ''en-US'',
        CallOptimizeSEO ''it-IT'', CallOptimizeSEO ''de-DE'', CallExecuteGeoDeploy]"
proof -
  have bad: "\<not> passesChecks fixtureEnv (integrationBrief\<lparr>campaignId := ''ab  ''\<rparr>)"
    by (simp add: passesChecks_def eval_strings)
  show ?thesis
    using runPipeline_halts [of fixtureEnv "integrationBrief\<lparr>campaignId := ''ab  ''\<rparr>"]
          runPipeline_halts [of fixtureEnv integrationBrief]
    by (simp add: validateInput_Fulfilled bad runPipeline_integrationBrief)
qed

lemma stub_keepsLocale:
  "aiGeneration env = stubAIGeneration \<Longrightarrow> providerKeepsLocale env project"
  by (simp add: providerKeepsLocale_def stubAIGeneration_def)

lemma stub_never_fails:
  "aiGeneration env = stubAIGeneration \<Longrightarrow> failedTasks env project = []"
  by (simp add: failedTasks_def generationTasks_def stubAIGeneration_def filter_empty_conv)

lemma stub_variants:
  assumes "aiGeneration env = stubAIGeneration"
  shows "map locale_of (map projr (filter (\<lambda>r. \<not> isl r) (generationTasks env project)))
           = targetLocales (payload project)"
    and "\<forall>v \<in> set (map projr (filter (\<lambda>r. \<not> isl r) (generationTasks env project))).
           heroTitle v \<noteq> [] \<and> locale_of v \<in> set (targetLocales (payload project))"
  using assms
  by (auto simp: generationTasks_def stubAIGeneration_def comp_def)

lemma promiseAll_optimizeSEO:
  assumes "\<forall>v \<in> set vs. locale_of v \<noteq> [] \<and> heroTitle v \<noteq> []"
  shows "\<exists>os. promiseAll (map optimizeSEO vs) = Fulfilled os
              \<and> map locale_of os = map locale_of vs"
  using assms
proof (induction vs)
  case Nil
  show ?case by simp
next
  case (Cons v vs)
  then obtain os where os: "promiseAll (map optimizeSEO vs) = Fulfilled os"
      "map locale_of os = map locale_of vs"
    by auto
  from Cons.prems obtain ks k where
    "optimizeSEO v = Fulfilled \<lparr> locale_of = locale_of v, heroTitle = heroTitle v,
                       bodyCopy = bodyCopy v, ctaText = ctaText v,
                       layoutId = layoutId v,
                       seo = generateMetadata v k, keywordsApplied = ks \<rparr>"
    using optimizeSEO_valid [of v] by auto
  with os show ?case by simp
qed

lemma runPipeline_stub:
  assumes checks: "passesChecks env brief"
    and stub: "aiGeneration env = stubAIGeneration"
    and settles: "set [0..<length (targetLocales brief)] \<subseteq> set (completion env)"
    and named: "\<forall>l \<in> set (targetLocales brief). l \<noteq> []"
  shows "\<exists>log cfg. runPipeline env brief = (log, Fulfilled cfg)
           \<and> edgeRegion cfg = determineEdgeRegion (targetLocales brief)
           \<and> consentRequired (middlewareRules cfg)
               = requiresGDPR (computeGeoCompliance (targetLocales brief))
           \<and> isLive cfg"
proof -
  let ?p = "\<lparr> projectId = campaignId brief, timestamp = isoNow env,
               status = VALIDATED, payload = brief,
               compliance = computeGeoCompliance (targetLocales brief) \<rparr>"
  define vs where "vs = map projr (filter (\<lambda>r. \<not> isl r) (generationTasks env ?p))"
  have v: "validateInput env brief = Fulfilled ?p"
    using checks by (simp add: validateInput_Fulfilled)
  have gen: "generateCreatives env ?p =
               Fulfilled \<lparr> output_projectId = campaignId brief, variants = vs,
                           generationModel = ''gpt-4o-stub-v1'', errors = None \<rparr>"
    unfolding vs_def
    using settles by (simp add: generateCreatives_validated everyTaskSettles_def
        stub_never_fails [OF stub])
  have locs: "map locale_of vs = targetLocales brief"
    unfolding vs_def using stub_variants(1) [OF stub, of ?p] by simp
  have valid: "\<forall>v \<in> set vs. locale_of v \<noteq> [] \<and> heroTitle v \<noteq> []"
    unfolding vs_def using stub_variants(2) [OF stub, of ?p] named by auto
  obtain os where os: "promiseAll (map optimizeSEO vs) = Fulfilled os"
      "map locale_of os = map locale_of vs"
    using promiseAll_optimizeSEO [OF valid] by blast
  have ne: "targetLocales brief \<noteq> []"
    using checks by (simp add: passesChecks_def)
  then have "os \<noteq> []"
    using os(2) locs by auto
  note deploy = executeGeoDeploy_nonempty [OF this, of env "computeGeoCompliance (targetLocales brief)"]
  show ?thesis
    by (simp add: runPipeline_def orchestrator_validateInput_def v
        orchestrator_generateCreatives_def gen orchestrator_optimizeSEO_def os
        orchestrator_executeGeoDeploy_def deploy locs)
qed

subsection \<open>The two EU language sets\<close>

lemma validatorOnly_in_euLocales:
  "p \<in> set validatorOnlyPrefixes \<Longrightarrow> p \<in> set euLocales"
  by (auto simp: validatorOnlyPrefixes_def euLocales_def)

lemma validatorOnly_not_in_euPrefixes:
  "p \<in> set validatorOnlyPrefixes \<Longrightarrow> p \<notin> set euPrefixes"
  by (auto simp: validatorOnlyPrefixes_def euPrefixes_def)

lemma eu_sets_difference:
  "set euLocales - set euPrefixes = set validatorOnlyPrefixes"
  by (auto simp: validatorOnlyPrefixes_def euPrefixes_def euLocales_def)

lemma isEuLocale_prefix:
  "isEuLocale l \<longleftrightarrow> toLowerCase (languagePrefix l) \<in> set euPrefixes"
  by (simp add: isEuLocale_def hd_split languagePrefix_def)

text \<open>
  C10. The validator's EU language set exceeds the hub's by \<open>pl\<close>, \<open>se\<close>, \<open>fi\<close>
  and \<open>dk\<close>. For every non-empty list of locales whose language prefixes are all
  among these four, compliance derivation returns \<open>requiresGDPR = true\<close> and
  \<open>dataResidency = EU\<close>, region selection classifies every locale as non-EU, and
  the selected edge region is \<open>iad1\<close>.
\<close>

theorem eu_sets_diverge:
  assumes "locales \<noteq> []"
    and "\<forall>l \<in> set locales. toLowerCase (languagePrefix l) \<in> set validatorOnlyPrefixes"
  shows "set euLocales - set euPrefixes = set validatorOnlyPrefixes
       \<and> set euPrefixes \<subseteq> set euLocales
       \<and> requiresGDPR (computeGeoCompliance locales)
       \<and> dataResidency (computeGeoCompliance locales) = EU
       \<and> (\<forall>l \<in> set locales. \<not> isEuLocale l)
       \<and> determineEdgeRegion locales = ''iad1''"
proof -
  obtain l ls where locales: "locales = l # ls"
    using assms(1) by (cases locales) auto
  have "toLowerCase (languagePrefix l) \<in> set euLocales"
    using assms(2) locales by (simp add: validatorOnly_in_euLocales)
  then have "hasEuLanguage locales"
    unfolding hasEuLanguage_def locales
    using eu_member_ignoring_case by auto
  then have policy: "computeGeoCompliance locales = euPolicy"
    by (simp add: computeGeoCompliance_policy)
  have non: "\<forall>l \<in> set locales. \<not> isEuLocale l"
    using assms(2) by (auto simp: isEuLocale_prefix dest: validatorOnly_not_in_euPrefixes)
  then have "euClassified locales = []" "nonEuClassified locales = locales"
    by (simp_all add: euClassified_def nonEuClassified_def)
  then have region: "determineEdgeRegion locales = ''iad1''"
    using assms(1) by (simp add: determineEdgeRegion_cases)
  have sub: "set euPrefixes \<subseteq> set euLocales"
    by (auto simp: euPrefixes_def euLocales_def)
  show ?thesis
    using policy non region sub eu_sets_difference by (simp add: euPolicy_def)
qed

theorem eu_sets_diverge_witness:
  "dataResidency (computeGeoCompliance [''pl-PL'', ''pl-PL'', ''pl-PL'']) = EU
   \<and> requiresGDPR (computeGeoCompliance [''pl-PL'', ''pl-PL'', ''pl-PL''])
   \<and> \<not> isEuLocale ''pl-PL''
   \<and> determineEdgeRegion [''pl-PL'', ''pl-PL'', ''pl-PL''] = ''iad1''
   \<and> (\<exists>log cfg. runPipeline fixtureEnv
                    (integrationBrief\<lparr>targetLocales := [''pl-PL'', ''pl-PL'', ''pl-PL'']\<rparr>)
                  = (log, Fulfilled cfg)
          \<and> edgeRegion cfg = ''iad1'' \<and> consentRequired (middlewareRules cfg))"
proof -
  let ?brief = "integrationBrief\<lparr>targetLocales := [''pl-PL'', ''pl-PL'', ''pl-PL'']\<rparr>"
  have pl: "toLowerCase (languagePrefix ''pl-PL'') \<in> set validatorOnlyPrefixes"
    by (simp add: languagePrefix_def validatorOnlyPrefixes_def eval_strings)
  then have facts: "requiresGDPR (computeGeoCompliance [''pl-PL'', ''pl-PL'', ''pl-PL''])"
      "dataResidency (computeGeoCompliance [''pl-PL'', ''pl-PL'', ''pl-PL'']) = EU"
      "\<not> isEuLocale ''pl-PL''"
      "determineEdgeRegion [''pl-PL'', ''pl-PL'', ''pl-PL''] = ''iad1''"
    using eu_sets_diverge [of "[''pl-PL'', ''pl-PL'', ''pl-PL'']"] by simp_all
  have checks: "passesChecks fixtureEnv ?brief"
    using checks_integrationBrief by (simp add: passesChecks_def)
  have run: "\<exists>log cfg. runPipeline fixtureEnv ?brief = (log, Fulfilled cfg)
           \<and> edgeRegion cfg = determineEdgeRegion (targetLocales ?brief)
           \<and> consentRequired (middlewareRules cfg)
               = requiresGDPR (computeGeoCompliance (targetLocales ?brief))
           \<and> isLive cfg"
    by (rule runPipeline_stub [OF checks]) (simp_all add: fixtureEnv_def upt_conv_Cons)
  show ?thesis
    using facts run by auto
qed

end
